theory Spec2Isabelle
  imports Complex_Main
begin

section \<open>The doubles of \<^verbatim>\<open>main\<close>\<close>

text \<open>
  \<^verbatim>\<open>loudgain.c\<close> holds gains and peaks in C doubles and uses four operations on them:
  the comparison \<^verbatim>\<open>>\<close>, the division \<^verbatim>\<open>1.0 / peak\<close>, the product
  \<^verbatim>\<open>peak * 32768.0\<close> and \<^verbatim>\<open>isfinite\<close>. A double is modelled by its IEEE 754 class:
  a NaN, an infinity, the negative zero, or a finite value given by the real number it
  stands for (\<open>Fin 0\<close> is the positive zero). Which reals are representable is not
  modelled; the rounding of an inexact result is the parameter \<open>rnd\<close> of the operation.
\<close>

datatype dbl = NaN | NInf | NZero | Fin real | PInf

fun isnan :: "dbl \<Rightarrow> bool" where
  "isnan NaN = True"
| "isnan _ = False"

fun isfinite :: "dbl \<Rightarrow> bool" where
  "isfinite (Fin _) = True"
| "isfinite NZero = True"
| "isfinite _ = False"

fun rank :: "dbl \<Rightarrow> int" where
  "rank NInf = - 1"
| "rank PInf = 1"
| "rank _ = 0"

fun fin_val :: "dbl \<Rightarrow> real" where
  "fin_val (Fin r) = r"
| "fin_val _ = 0"

text \<open>C's \<^verbatim>\<open>a > b\<close> on doubles: false when either side is a NaN, the two zeros equal.\<close>

definition dbl_gt :: "dbl \<Rightarrow> dbl \<Rightarrow> bool" where
  "dbl_gt a b =
     (if isnan a then False
      else if isnan b then False
      else (rank b < rank a \<or> (rank a = rank b \<and> fin_val b < fin_val a)))"

text \<open>libavutil's macro \<^verbatim>\<open>#define FFMIN(a,b) ((a) > (b) ? (b) : (a))\<close>.\<close>

definition FFMIN :: "dbl \<Rightarrow> dbl \<Rightarrow> dbl" where
  "FFMIN a b = (if dbl_gt a b then b else a)"

text \<open>\<^verbatim>\<open>1.0 / peak\<close> (and \<^verbatim>\<open>1.f / peak\<close>, which C computes in double as well).\<close>

fun one_over :: "(real \<Rightarrow> dbl) \<Rightarrow> dbl \<Rightarrow> dbl" where
  "one_over rnd NaN = NaN"
| "one_over rnd PInf = Fin 0"
| "one_over rnd NInf = NZero"
| "one_over rnd NZero = NInf"
| "one_over rnd (Fin r) = (if r = 0 then PInf else rnd (1 / r))"

text \<open>\<^verbatim>\<open>peak * 32768.0\<close>.\<close>

fun times_32768 :: "(real \<Rightarrow> dbl) \<Rightarrow> dbl \<Rightarrow> dbl" where
  "times_32768 rnd (Fin r) = (if r = 0 then Fin 0 else rnd (r * 32768))"
| "times_32768 rnd d = d"

section \<open>The scan result\<close>

text \<open>
  \<^verbatim>\<open>scan.h\<close> is not among the sources; the record has the fields of \<^verbatim>\<open>scan_result\<close>
  that \<^verbatim>\<open>main\<close> reads and writes. The codec identifiers are libavcodec's; \<^verbatim>\<open>main\<close>
  tells three of them from all the others. The field \<^verbatim>\<open>file\<close> is \<open>file_name\<close> here
  (\<open>file\<close> is a keyword of Isabelle).
\<close>

datatype AVCodecID =
  AV_CODEC_ID_MP3 | AV_CODEC_ID_FLAC | AV_CODEC_ID_VORBIS | AV_CODEC_ID_OTHER nat

record scan_result =
  file_name :: string
  codec_id :: AVCodecID
  track_gain :: dbl
  track_peak :: dbl
  track_loudness :: dbl
  track_loudness_range :: dbl
  album_gain :: dbl
  album_peak :: dbl
  album_loudness :: dbl
  album_loudness_range :: dbl

section \<open>The clip guard (\<^verbatim>\<open>main\<close>, lines 157 and 167 to 181)\<close>

text \<open>The two comparisons of the \<^verbatim>\<open>if\<close> at lines 167 and 168.\<close>

definition track_clips :: "(real \<Rightarrow> dbl) \<Rightarrow> scan_result \<Rightarrow> bool" where
  "track_clips rnd scan = dbl_gt (track_gain scan) (one_over rnd (track_peak scan))"

definition album_clips :: "(real \<Rightarrow> dbl) \<Rightarrow> scan_result \<Rightarrow> bool" where
  "album_clips rnd scan = dbl_gt (album_gain scan) (one_over rnd (album_peak scan))"

text \<open>Lines 174 to 178: both gains are overwritten in the struct.\<close>

definition clamp_gains :: "(real \<Rightarrow> dbl) \<Rightarrow> scan_result \<Rightarrow> scan_result" where
  "clamp_gains rnd scan =
     (let scan1 = scan\<lparr>track_gain := FFMIN (track_gain scan) (one_over rnd (track_peak scan))\<rparr>
      in scan1\<lparr>album_gain := FFMIN (album_gain scan1) (one_over rnd (album_peak scan1))\<rparr>)"

text \<open>
  \<^verbatim>\<open>will_clip\<close> starts false (line 157), is set when either comparison holds, and is
  cleared again when the gains are clamped; \<open>avoid\<close> is the value of \<^verbatim>\<open>no_clip\<close>. The
  result is the struct and the flag as they stand after line 181.
\<close>

definition clip_guard :: "(real \<Rightarrow> dbl) \<Rightarrow> bool \<Rightarrow> scan_result \<Rightarrow> scan_result \<times> bool" where
  "clip_guard rnd avoid scan =
     (let will_clip = (if track_clips rnd scan \<or> album_clips rnd scan then True else False)
      in if will_clip \<and> avoid then (clamp_gains rnd scan, False) else (scan, will_clip))"

section \<open>What \<^verbatim>\<open>main\<close> is given and what it does to the outside\<close>

text \<open>
  \<^verbatim>\<open>main\<close> calls code that is not in \<^verbatim>\<open>loudgain.c\<close>: libc's \<^verbatim>\<open>strtod\<close>, the scanner
  (\<^verbatim>\<open>scan.c\<close>) and the floating-point unit. They are the fields of one record of
  parameters:
  \<^item> \<open>strtod s\<close> is the value \<^verbatim>\<open>strtod(s, &rest)\<close> returns and the number of characters
    it consumed (\<^verbatim>\<open>rest - s\<close>); \<^verbatim>\<open>strtod\<close> always stores a pointer in \<^verbatim>\<open>rest\<close>, so the
    test \<^verbatim>\<open>!rest\<close> of line 113 never holds;
  \<^item> \<open>round_dbl\<close> rounds an exact quotient or product to a double;
  \<^item> \<open>scan_get_track_result i pre_gain\<close> is the struct the scanner returns for file
    \<open>i\<close>, or \<open>None\<close> for \<^verbatim>\<open>NULL\<close>;
  \<^item> \<open>scan_set_album_result scan pre_gain\<close> is the struct as the scanner leaves it;
  \<^item> \<open>tag_call fn scan\<close> is the struct as the tag function \<open>fn\<close> leaves it:
    \<^verbatim>\<open>tag.c\<close> is not among the sources, and \<^verbatim>\<open>tag.h\<close> hands every tag function a
    pointer to a struct it may write to.
\<close>

datatype tag_fn =
  tag_clear_mp3 | tag_write_mp3 | tag_clear_flac | tag_write_flac
| tag_clear_vorbis | tag_write_vorbis

record collab =
  strtod :: "string \<Rightarrow> dbl \<times> nat"
  round_dbl :: "real \<Rightarrow> dbl"
  scan_get_track_result :: "nat \<Rightarrow> dbl \<Rightarrow> scan_result option"
  scan_set_album_result :: "scan_result \<Rightarrow> dbl \<Rightarrow> scan_result"
  tag_call :: "tag_fn \<Rightarrow> scan_result \<Rightarrow> scan_result"

text \<open>
  Every call that reaches the outside is an event of the run's trace, in the order of
  the calls. A \<^verbatim>\<open>printf\<close> argument is a cell: \<^verbatim>\<open>%s\<close>, \<^verbatim>\<open>%d\<close>, \<^verbatim>\<open>%.2f\<close> or \<^verbatim>\<open>%.6f\<close>
  with its value. \<open>Tab_row\<close> is one line of the tab-delimited list (the six \<^verbatim>\<open>printf\<close>
  calls of lines 250 to 255, or of lines 258 to 263, the last of which ends the line);
  \<open>Track_block\<close> and \<open>Album_block\<close> are the blocks of lines 266 to 271 and 274 to 279 with
  the loudness, the range, the gain and the peak they print.

  Modelled from the spec: \<^verbatim>\<open>printf.h\<close>, which declares \<^verbatim>\<open>ok_printf\<close>, \<^verbatim>\<open>err_printf\<close>,
  \<^verbatim>\<open>fail_printf\<close> and \<^verbatim>\<open>quiet\<close>, is not among the sources. After the spec's section 7 a
  malformed numeric argument is fatal and aborts before any scanning, so
  \<open>Fail_printf\<close> ends the run with the status \<open>Failed\<close>; an unsupported format and
  "will clip" are reported and the run goes on, so \<open>Err_printf\<close> and \<open>Ok_printf\<close> only
  add their event.
\<close>

datatype cell = CStr string | CInt int | CFix2 dbl | CFix6 dbl

datatype event =
  Help
| Version
| Fail_printf string
| Err_printf string
| Ok_printf_scanning string
| Scan_init nat
| Scan_file string nat
| Scan_deinit
| Tag tag_fn scan_result
| Tab_header
| Tab_row "cell list"
| Track_block string dbl dbl dbl dbl
| Album_block dbl dbl dbl dbl

datatype exit = Returned int | Failed

section \<open>The option loop (lines 81 to 141)\<close>

record config =
  mode :: char
  pre_gain :: dbl
  no_clip :: bool
  warn_clip :: bool
  do_album :: bool
  tab_output :: bool
  quiet :: bool

definition init_config :: config where
  "init_config =
     \<lparr>mode = CHR ''s'', pre_gain = Fin 0, no_clip = False, warn_clip = True,
      do_album = False, tab_output = False, quiet = False\<rparr>"

text \<open>
  One pass of the \<^verbatim>\<open>switch\<close>, on the character \<^verbatim>\<open>getopt_long\<close> returned and the
  \<^verbatim>\<open>optarg\<close> it set: the new configuration, or the events and the status the run ends
  with. \<^verbatim>\<open>getopt_long\<close> returns \<^verbatim>\<open>?\<close> for an option it does not know or whose argument
  is missing. \<^verbatim>\<open>optarg[0]\<close> of an empty argument is its terminating zero byte.
\<close>

definition handle_opt :: "collab \<Rightarrow> config \<Rightarrow> char \<times> string \<Rightarrow> (event list \<times> exit) + config" where
  "handle_opt env cfg opt =
     (let rc = fst opt; optarg = snd opt in
      if rc = CHR ''r'' then Inr cfg
      else if rc = CHR ''a'' then Inr (cfg\<lparr>do_album := True\<rparr>)
      else if rc = CHR ''c'' then Inr (cfg\<lparr>warn_clip := False\<rparr>)
      else if rc = CHR ''k'' then Inr (cfg\<lparr>no_clip := True\<rparr>)
      else if rc = CHR ''d'' then
        (let parsed = strtod env optarg
         in if snd parsed = 0 then Inl ([Fail_printf ''Invalid dB gain value''], Failed)
            else if isfinite (fst parsed) then Inr (cfg\<lparr>pre_gain := fst parsed\<rparr>)
            else Inl ([Fail_printf ''Invalid dB gain value''], Failed))
      else if rc = CHR ''o'' then Inr (cfg\<lparr>tab_output := True\<rparr>)
      else if rc = CHR ''q'' then Inr (cfg\<lparr>quiet := True\<rparr>)
      else if rc = CHR ''s'' then
        Inr (cfg\<lparr>mode := (case optarg of [] \<Rightarrow> CHR 0x00 | c # _ \<Rightarrow> c)\<rparr>)
      else if rc = CHR ''?'' then Inl ([Help], Returned 0)
      else if rc = CHR ''h'' then Inl ([Help], Returned 0)
      else if rc = CHR ''V'' then Inl ([Version], Returned 0)
      else Inr cfg)"

text \<open>The \<^verbatim>\<open>while\<close> loop over the options \<^verbatim>\<open>getopt_long\<close> finds, in command-line order.\<close>

fun getopt_loop :: "collab \<Rightarrow> config \<Rightarrow> (char \<times> string) list \<Rightarrow> (event list \<times> exit) + config" where
  "getopt_loop env cfg [] = Inr cfg"
| "getopt_loop env cfg (opt # opts) =
     (case handle_opt env cfg opt of
        Inl stop \<Rightarrow> Inl stop
      | Inr cfg' \<Rightarrow> getopt_loop env cfg' opts)"

section \<open>Scanning and reporting (lines 143 to 291)\<close>

text \<open>The first \<^verbatim>\<open>for\<close> loop (lines 147 to 151); \<open>k\<close> is \<^verbatim>\<open>i - optind\<close>.\<close>

fun scan_files :: "string list \<Rightarrow> nat \<Rightarrow> event list" where
  "scan_files [] k = []"
| "scan_files (f # fs) k = Ok_printf_scanning f # Scan_file f k # scan_files fs (Suc k)"

text \<open>
  Tag functions called one after the other on the struct \<^verbatim>\<open>scan\<close> points to: each
  call is an event with the struct as it is handed over, and leaves the struct for the
  next call. The result is the events and the struct after the last call.
\<close>

fun tag_calls :: "collab \<Rightarrow> tag_fn list \<Rightarrow> scan_result \<Rightarrow> event list \<times> scan_result" where
  "tag_calls env [] scan = ([], scan)"
| "tag_calls env (fn # fns) scan =
     (let later = tag_calls env fns (tag_call env fn scan)
      in (Tag fn scan # fst later, snd later))"

text \<open>
  The tag \<^verbatim>\<open>switch\<close> (lines 183 to 247): its events and the struct as it leaves it. The
  inner \<^verbatim>\<open>switch\<close> reads \<^verbatim>\<open>codec_id\<close> once, before the calls.
\<close>

definition tag_switch :: "collab \<Rightarrow> char \<Rightarrow> scan_result \<Rightarrow> event list \<times> scan_result" where
  "tag_switch env m scan =
     (if m = CHR ''c'' then ([], scan)
      else if m = CHR ''d'' then
        (case codec_id scan of
           AV_CODEC_ID_MP3 \<Rightarrow> tag_calls env [tag_clear_mp3] scan
         | AV_CODEC_ID_FLAC \<Rightarrow> tag_calls env [tag_clear_flac] scan
         | AV_CODEC_ID_VORBIS \<Rightarrow> tag_calls env [tag_clear_vorbis] scan
         | AV_CODEC_ID_OTHER _ \<Rightarrow> ([Err_printf ''File type not supported''], scan))
      else if m = CHR ''i'' then
        (case codec_id scan of
           AV_CODEC_ID_MP3 \<Rightarrow> tag_calls env [tag_clear_mp3, tag_write_mp3] scan
         | AV_CODEC_ID_FLAC \<Rightarrow> tag_calls env [tag_clear_flac, tag_write_flac] scan
         | AV_CODEC_ID_VORBIS \<Rightarrow> tag_calls env [tag_clear_vorbis, tag_write_vorbis] scan
         | AV_CODEC_ID_OTHER _ \<Rightarrow> ([Err_printf ''File type not supported''], scan))
      else if m = CHR ''a'' then ([Err_printf ''APEv2 tags are not supported''], scan)
      else if m = CHR ''v'' then ([Err_printf ''Vorbis Comment tags are not supported''], scan)
      else if m = CHR ''s'' then ([], scan)
      else if m = CHR ''r'' then ([], scan)
      else ([Err_printf ''Invalid tag mode''], scan))"

text \<open>
  \<^verbatim>\<open>i == (nb_files - 1)\<close>: \<^verbatim>\<open>nb_files\<close> is unsigned, so the difference is taken modulo
  \<open>2 ^ 32\<close> and \<^verbatim>\<open>i\<close>, never negative in the loop, is compared as it is.
\<close>

definition is_last :: "nat \<Rightarrow> nat \<Rightarrow> bool" where
  "is_last i nb_files = (int i = (int nb_files - 1) mod 2 ^ 32)"

text \<open>The report of one file (lines 249 to 281).\<close>

definition report :: "(real \<Rightarrow> dbl) \<Rightarrow> config \<Rightarrow> nat \<Rightarrow> nat \<Rightarrow> scan_result \<Rightarrow> event list" where
  "report rnd cfg nb_files i scan =
     (if tab_output cfg then
        Tab_row [CStr (file_name scan), CInt 0, CFix2 (track_gain scan),
                 CFix6 (times_32768 rnd (track_peak scan)), CInt 0, CInt 0]
        # (if is_last i nb_files \<and> do_album cfg then
             [Tab_row [CStr ''Album'', CInt 0, CFix2 (album_gain scan),
                       CFix6 (times_32768 rnd (album_peak scan)), CInt 0, CInt 0]]
           else [])
      else
        Track_block (file_name scan) (track_loudness scan) (track_loudness_range scan)
          (track_gain scan) (track_peak scan)
        # (if is_last i nb_files \<and> do_album cfg then
             [Album_block (album_loudness scan) (album_loudness_range scan)
                (album_gain scan) (album_peak scan)]
           else []))"

text \<open>
  The body of the second \<^verbatim>\<open>for\<close> loop from line 164 on, for a file whose scan gave a
  struct. Its state is the memory the pointer \<^verbatim>\<open>scan\<close> points to (one struct, written
  in place), the flag \<^verbatim>\<open>will_clip\<close> and the events so far. The steps follow the source
  in its order: \<^verbatim>\<open>scan_set_album_result\<close> (lines 164 and 165), the clip guard (lines 167
  to 181), the tag \<^verbatim>\<open>switch\<close> (lines 183 to 247), the report (lines 249 to 281) and the
  clip warning (lines 283 and 284); then the struct is freed (line 286).
\<close>

record iter_state =
  scan_mem :: scan_result
  will_clip :: bool
  out :: "event list"

definition album_step :: "collab \<Rightarrow> config \<Rightarrow> scan_result \<Rightarrow> scan_result" where
  "album_step env cfg scan0 =
     (if do_album cfg then scan_set_album_result env scan0 (pre_gain cfg) else scan0)"

definition step_album :: "collab \<Rightarrow> config \<Rightarrow> iter_state \<Rightarrow> iter_state" where
  "step_album env cfg st = st\<lparr>scan_mem := album_step env cfg (scan_mem st)\<rparr>"

definition step_guard :: "collab \<Rightarrow> config \<Rightarrow> iter_state \<Rightarrow> iter_state" where
  "step_guard env cfg st =
     (let guarded = clip_guard (round_dbl env) (no_clip cfg) (scan_mem st)
      in st\<lparr>scan_mem := fst guarded, will_clip := snd guarded\<rparr>)"

definition step_tags :: "collab \<Rightarrow> config \<Rightarrow> iter_state \<Rightarrow> iter_state" where
  "step_tags env cfg st =
     (let tagged = tag_switch env (mode cfg) (scan_mem st)
      in st\<lparr>scan_mem := snd tagged, out := out st @ fst tagged\<rparr>)"

definition step_report :: "collab \<Rightarrow> config \<Rightarrow> nat \<Rightarrow> nat \<Rightarrow> iter_state \<Rightarrow> iter_state" where
  "step_report env cfg nb_files i st =
     st\<lparr>out := out st @ report (round_dbl env) cfg nb_files i (scan_mem st)\<rparr>"

definition step_warn :: "config \<Rightarrow> iter_state \<Rightarrow> iter_state" where
  "step_warn cfg st =
     st\<lparr>out := out st
            @ (if warn_clip cfg \<and> will_clip st then [Err_printf ''The track will clip''] else [])\<rparr>"

text \<open>
  One iteration, from the struct the scanner returned: the struct as it is when freed,
  and the events of the iteration.
\<close>

definition iteration :: "collab \<Rightarrow> config \<Rightarrow> nat \<Rightarrow> nat \<Rightarrow> scan_result \<Rightarrow> scan_result \<times> event list" where
  "iteration env cfg nb_files i scan0 =
     (let st0 = \<lparr>scan_mem = scan0, will_clip = False, out = []\<rparr>;
          st1 = step_album env cfg st0;
          st2 = step_guard env cfg st1;
          st3 = step_tags env cfg st2;
          st4 = step_report env cfg nb_files i st3;
          st5 = step_warn cfg st4
      in (scan_mem st5, out st5))"

text \<open>
  The second \<^verbatim>\<open>for\<close> loop (lines 156 to 287) over the indices it visits;
  \<^verbatim>\<open>continue\<close> at a \<^verbatim>\<open>NULL\<close> result goes to the next index.
\<close>

fun report_loop :: "collab \<Rightarrow> config \<Rightarrow> nat \<Rightarrow> nat list \<Rightarrow> event list" where
  "report_loop env cfg nb_files [] = []"
| "report_loop env cfg nb_files (i # rest) =
     (case scan_get_track_result env i (pre_gain cfg) of
        None \<Rightarrow> report_loop env cfg nb_files rest
      | Some scan \<Rightarrow> snd (iteration env cfg nb_files i scan) @ report_loop env cfg nb_files rest)"

text \<open>Lines 143 to 291, once the options are read: \<open>files\<close> is \<^verbatim>\<open>argv[optind..argc)\<close>.\<close>

definition scan_and_report :: "collab \<Rightarrow> config \<Rightarrow> string list \<Rightarrow> event list \<times> exit" where
  "scan_and_report env cfg files =
     (let nb_files = length files
      in (Scan_init nb_files # scan_files files 0
            @ (if tab_output cfg then [Tab_header] else [])
            @ report_loop env cfg nb_files [0..<nb_files]
            @ [Scan_deinit],
          Returned 0))"

text \<open>
  \<^verbatim>\<open>main\<close>: \<open>opts\<close> are the options of the command line as \<^verbatim>\<open>getopt_long\<close> returns them
  one after the other, each with its \<^verbatim>\<open>optarg\<close>; \<open>files\<close> are the remaining arguments.
\<close>

definition main :: "collab \<Rightarrow> (char \<times> string) list \<Rightarrow> string list \<Rightarrow> event list \<times> exit" where
  "main env opts files =
     (case getopt_loop env init_config opts of
        Inl stop \<Rightarrow> stop
      | Inr cfg \<Rightarrow> scan_and_report env cfg files)"

section \<open>The clip guard in the spec's words\<close>

text \<open>
  The spec's section 4.8, on real numbers: the peak a gain in dB predicts, and the gain
  the guard is to return when that peak exceeds 1.
\<close>

definition predicted_peak :: "real \<Rightarrow> real \<Rightarrow> real" where
  "predicted_peak gain peak = peak * 10 powr (gain / 20)"

definition spec_clamped_gain :: "real \<Rightarrow> real" where
  "spec_clamped_gain peak = - 20 * log 10 peak"

section \<open>Concrete collaborators for the examples\<close>

text \<open>
  An instance of \<^verbatim>\<open>strtod\<close> for the examples: an optional sign, decimal digits and an
  optional fraction (no white space, exponent, infinity or NaN). The theorems below
  are about every \<open>strtod\<close>; this one evaluates them on concrete strings.
\<close>

definition is_digit :: "char \<Rightarrow> bool" where
  "is_digit c = (48 \<le> (of_char c :: nat) \<and> (of_char c :: nat) \<le> 57)"

definition digits_val :: "string \<Rightarrow> nat" where
  "digits_val ds = foldl (\<lambda>a c. 10 * a + (of_char c - 48)) 0 ds"

definition strtod_dec :: "string \<Rightarrow> dbl \<times> nat" where
  "strtod_dec s =
     (let signed = (case s of [] \<Rightarrow> False | c # _ \<Rightarrow> c = CHR ''-'' \<or> c = CHR ''+'');
          negative = (case s of [] \<Rightarrow> False | c # _ \<Rightarrow> c = CHR ''-'');
          body = (if signed then tl s else s);
          ip = takeWhile is_digit body;
          after = dropWhile is_digit body;
          dotted = (case after of [] \<Rightarrow> False | c # _ \<Rightarrow> c = CHR ''.'');
          fp = (if dotted then takeWhile is_digit (tl after) else []);
          v = real (digits_val (ip @ fp)) / 10 ^ length fp
      in if ip = [] \<and> fp = [] then (Fin 0, 0)
         else (if negative then (if v = 0 then NZero else Fin (- v)) else Fin v,
               (if signed then 1 else 0) + length ip + (if dotted then 1 + length fp else 0)))"

text \<open>A struct with the given track values and zero album values.\<close>

definition track_of :: "string \<Rightarrow> AVCodecID \<Rightarrow> dbl \<Rightarrow> dbl \<Rightarrow> scan_result" where
  "track_of f c g p =
     \<lparr>file_name = f, codec_id = c, track_gain = g, track_peak = p,
      track_loudness = Fin (- 20), track_loudness_range = Fin 5,
      album_gain = Fin 0, album_peak = Fin 0,
      album_loudness = Fin 0, album_loudness_range = Fin 0\<rparr>"

text \<open>
  A scanner for three files: the first is a FLAC file, the scan of the second fails,
  the third has a codec \<^verbatim>\<open>main\<close> writes no tags for. The album values are those of an
  album with gain 3 dB and peak 0.5. Quotients and products are taken exactly
  (the examples divide and multiply by powers of two only), and the tag functions leave
  the struct as it is.
\<close>

definition demo_env :: collab where
  "demo_env =
     \<lparr>strtod = strtod_dec,
      round_dbl = Fin,
      scan_get_track_result =
        (\<lambda>i pg. if i = 0 then Some (track_of ''a.flac'' AV_CODEC_ID_FLAC (Fin 2) (Fin 1))
                 else if i = 2 then Some (track_of ''c.wav'' (AV_CODEC_ID_OTHER 0) (Fin 1) (Fin (1 / 4)))
                 else None),
      scan_set_album_result =
        (\<lambda>scan pg. scan\<lparr>album_gain := Fin 3, album_peak := Fin (1 / 2),
                           album_loudness := Fin (- 21), album_loudness_range := Fin 6\<rparr>),
      tag_call = (\<lambda>fn scan. scan)\<rparr>"

section \<open>Properties of the comparison and the clamp\<close>

lemma dbl_gt_irrefl: "dbl_gt a a = False"
  by (simp add: dbl_gt_def)

lemma dbl_gt_PInf: "dbl_gt g PInf = False"
  by (cases g) (simp_all add: dbl_gt_def)

lemma FFMIN_not_gt: "dbl_gt (FFMIN a b) b = False"
  by (simp add: FFMIN_def dbl_gt_irrefl)

lemma FFMIN_PInf: "FFMIN g PInf = g"
  by (simp add: FFMIN_def dbl_gt_PInf)

lemma clamp_gains_track_peak: "track_peak (clamp_gains rnd scan) = track_peak scan"
  by (simp add: clamp_gains_def Let_def)

lemma clamp_gains_album_peak: "album_peak (clamp_gains rnd scan) = album_peak scan"
  by (simp add: clamp_gains_def Let_def)

lemma clamp_gains_track_gain:
  "track_gain (clamp_gains rnd scan) = FFMIN (track_gain scan) (one_over rnd (track_peak scan))"
  by (simp add: clamp_gains_def Let_def)

lemma clamp_gains_album_gain:
  "album_gain (clamp_gains rnd scan) = FFMIN (album_gain scan) (one_over rnd (album_peak scan))"
  by (simp add: clamp_gains_def Let_def)

lemma track_clips_clamp: "track_clips rnd (clamp_gains rnd scan) = False"
  by (simp add: track_clips_def clamp_gains_track_gain clamp_gains_track_peak FFMIN_not_gt)

lemma album_clips_clamp: "album_clips rnd (clamp_gains rnd scan) = False"
  by (simp add: album_clips_def clamp_gains_album_gain clamp_gains_album_peak FFMIN_not_gt)

lemma FFMIN_track:
  "FFMIN (track_gain scan) (one_over rnd (track_peak scan)) =
     (if track_clips rnd scan then one_over rnd (track_peak scan) else track_gain scan)"
  by (simp add: FFMIN_def track_clips_def)

lemma FFMIN_album:
  "FFMIN (album_gain scan) (one_over rnd (album_peak scan)) =
     (if album_clips rnd scan then one_over rnd (album_peak scan) else album_gain scan)"
  by (simp add: FFMIN_def album_clips_def)

text \<open>The flag after line 181, and the fields of the struct after line 181.\<close>

lemma guard_flag:
  "snd (clip_guard rnd avoid scan) =
     (if avoid then False else (track_clips rnd scan \<or> album_clips rnd scan))"
  by (simp add: clip_guard_def Let_def)

lemma guard_track_gain:
  "track_gain (fst (clip_guard rnd avoid scan)) =
     (if avoid \<and> track_clips rnd scan then one_over rnd (track_peak scan) else track_gain scan)"
  by (cases avoid; cases "track_clips rnd scan"; cases "album_clips rnd scan")
     (simp_all add: clip_guard_def clamp_gains_track_gain FFMIN_track)

lemma guard_album_gain:
  "album_gain (fst (clip_guard rnd avoid scan)) =
     (if avoid \<and> album_clips rnd scan then one_over rnd (album_peak scan) else album_gain scan)"
  by (cases avoid; cases "track_clips rnd scan"; cases "album_clips rnd scan")
     (simp_all add: clip_guard_def clamp_gains_album_gain FFMIN_album)

lemma guard_track_peak: "track_peak (fst (clip_guard rnd avoid scan)) = track_peak scan"
  by (simp add: clip_guard_def Let_def clamp_gains_track_peak)

lemma guard_album_peak: "album_peak (fst (clip_guard rnd avoid scan)) = album_peak scan"
  by (simp add: clip_guard_def Let_def clamp_gains_album_peak)


section \<open>Properties of the option loop\<close>

lemma handle_opt_d:
  "handle_opt env cfg (CHR ''d'', optarg) =
     (if snd (strtod env optarg) = 0 then Inl ([Fail_printf ''Invalid dB gain value''], Failed)
      else if isfinite (fst (strtod env optarg)) then Inr (cfg\<lparr>pre_gain := fst (strtod env optarg)\<rparr>)
      else Inl ([Fail_printf ''Invalid dB gain value''], Failed))"
  by (simp add: handle_opt_def Let_def)

text \<open>The option loop ends the run in three ways only.\<close>

lemma handle_opt_stop:
  assumes "handle_opt env cfg opt = Inl stop"
  shows "stop = ([Fail_printf ''Invalid dB gain value''], Failed)
       \<or> stop = ([Help], Returned 0) \<or> stop = ([Version], Returned 0)"
  using assms unfolding handle_opt_def Let_def
  by (simp split: if_splits)

lemma handle_opt_stop_no_help:
  assumes "handle_opt env cfg opt = Inl stop"
      and "fst opt \<notin> {CHR ''?'', CHR ''h'', CHR ''V''}"
  shows "stop = ([Fail_printf ''Invalid dB gain value''], Failed)"
  using assms unfolding handle_opt_def Let_def
  by (simp split: if_splits)

lemma getopt_loop_stop:
  "getopt_loop env cfg opts = Inl stop \<Longrightarrow>
     stop = ([Fail_printf ''Invalid dB gain value''], Failed)
     \<or> stop = ([Help], Returned 0) \<or> stop = ([Version], Returned 0)"
proof (induction opts arbitrary: cfg)
  case Nil
  then show ?case by simp
next
  case (Cons opt opts)
  show ?case
  proof (cases "handle_opt env cfg opt")
    case (Inl s)
    with Cons.prems have "stop = s" by simp
    with Inl show ?thesis using handle_opt_stop by blast
  next
    case (Inr cfg')
    with Cons.prems have "getopt_loop env cfg' opts = Inl stop" by simp
    then show ?thesis by (rule Cons.IH)
  qed
qed

text \<open>A malformed \<^verbatim>\<open>-d\<close> value anywhere among the options keeps the loop from finishing.\<close>

lemma getopt_loop_bad_gain_stops:
  assumes "snd (strtod env optarg) = 0 \<or> isfinite (fst (strtod env optarg)) = False"
  shows "(CHR ''d'', optarg) \<in> set opts \<Longrightarrow> \<exists>stop. getopt_loop env cfg opts = Inl stop"
proof (induction opts arbitrary: cfg)
  case Nil
  then show ?case by simp
next
  case (Cons opt opts)
  show ?case
  proof (cases "handle_opt env cfg opt")
    case (Inl s)
    then show ?thesis by simp
  next
    case (Inr cfg')
    have "opt \<noteq> (CHR ''d'', optarg)"
    proof
      assume "opt = (CHR ''d'', optarg)"
      with Inr assms show False by (auto simp add: handle_opt_d split: if_splits)
    qed
    with Cons.prems have "(CHR ''d'', optarg) \<in> set opts" by simp
    then have "\<exists>stop. getopt_loop env cfg' opts = Inl stop" by (rule Cons.IH)
    with Inr show ?thesis by simp
  qed
qed

text \<open>With no help or version option before it, the loop ends with the failure.\<close>

lemma getopt_loop_bad_gain_fails:
  assumes "snd (strtod env optarg) = 0 \<or> isfinite (fst (strtod env optarg)) = False"
  shows "\<forall>opt\<in>set pre. fst opt \<notin> {CHR ''?'', CHR ''h'', CHR ''V''} \<Longrightarrow>
         getopt_loop env cfg (pre @ (CHR ''d'', optarg) # post)
           = Inl ([Fail_printf ''Invalid dB gain value''], Failed)"
proof (induction pre arbitrary: cfg)
  case Nil
  show ?case using assms by (auto simp add: handle_opt_d)
next
  case (Cons opt pre)
  show ?case
  proof (cases "handle_opt env cfg opt")
    case (Inl s)
    moreover from Cons.prems have "fst opt \<notin> {CHR ''?'', CHR ''h'', CHR ''V''}" by simp
    ultimately have "s = ([Fail_printf ''Invalid dB gain value''], Failed)"
      by (rule handle_opt_stop_no_help)
    with Inl show ?thesis by simp
  next
    case (Inr cfg')
    from Cons.prems have "\<forall>opt\<in>set pre. fst opt \<notin> {CHR ''?'', CHR ''h'', CHR ''V''}" by simp
    then have "getopt_loop env cfg' (pre @ (CHR ''d'', optarg) # post)
                 = Inl ([Fail_printf ''Invalid dB gain value''], Failed)"
      by (rule Cons.IH)
    with Inr show ?thesis by simp
  qed
qed

section \<open>Properties of the report loop\<close>

lemma is_last_iff:
  assumes "i < nb_files" and "nb_files \<le> 2 ^ 32"
  shows "is_last i nb_files = (Suc i = nb_files)"
proof -
  have "0 \<le> int nb_files - 1" and "int nb_files - 1 < 2 ^ 32"
    using assms by simp_all
  then have "(int nb_files - 1) mod 2 ^ 32 = int nb_files - 1"
    by simp
  then show ?thesis
    using assms(1) by (auto simp add: is_last_def)
qed

lemma report_loop_append:
  "report_loop env cfg n (xs @ ys) = report_loop env cfg n xs @ report_loop env cfg n ys"
  by (induction xs) (simp_all split: option.splits)

lemma scan_and_report_exit: "snd (scan_and_report env cfg files) = Returned 0"
  by (simp add: scan_and_report_def Let_def)

lemma main_exit:
  "snd (main env opts files) = Returned 0
   \<or> getopt_loop env init_config opts = Inl ([Fail_printf ''Invalid dB gain value''], Failed)"
proof (cases "getopt_loop env init_config opts")
  case (Inl stop)
  then have "stop = ([Fail_printf ''Invalid dB gain value''], Failed)
       \<or> stop = ([Help], Returned 0) \<or> stop = ([Version], Returned 0)"
    by (rule getopt_loop_stop)
  with Inl show ?thesis by (auto simp add: main_def)
next
  case (Inr cfg)
  then show ?thesis by (simp add: main_def scan_and_report_exit)
qed

lemma tag_calls_quiet:
  assumes "\<forall>fn s. tag_call env fn s = s"
  shows "snd (tag_calls env fns scan) = scan"
  by (induction fns arbitrary: scan) (simp_all add: assms Let_def)

lemma tag_switch_quiet:
  assumes "\<forall>fn s. tag_call env fn s = s"
  shows "snd (tag_switch env m scan) = scan"
  using assms by (simp add: tag_switch_def Let_def split: AVCodecID.split)


text \<open>The struct when freed, and the events of an iteration, step by step.\<close>

lemma iteration_struct:
  "fst (iteration env cfg n i scan0)
     = snd (tag_switch env (mode cfg)
              (fst (clip_guard (round_dbl env) (no_clip cfg) (album_step env cfg scan0))))"
  by (simp add: iteration_def step_album_def step_guard_def step_tags_def step_report_def
      step_warn_def Let_def)

lemma iteration_events:
  "snd (iteration env cfg n i scan0) =
     fst (tag_switch env (mode cfg)
            (fst (clip_guard (round_dbl env) (no_clip cfg) (album_step env cfg scan0))))
     @ report (round_dbl env) cfg n i (fst (iteration env cfg n i scan0))
     @ (if warn_clip cfg \<and> snd (clip_guard (round_dbl env) (no_clip cfg) (album_step env cfg scan0))
        then [Err_printf ''The track will clip''] else [])"
  by (simp add: iteration_def step_album_def step_guard_def step_tags_def step_report_def
      step_warn_def Let_def)

section \<open>The claims about the clip guard\<close>

text \<open>
  C1. The spec has the guard return the gain \<open>- 20 * log10 peak\<close> dB whenever clip
  avoidance is on and the predicted peak \<open>peak * 10 ^ (gain / 20)\<close> exceeds 1. The code
  compares the gain, in dB, with the linear ratio \<open>1 / peak\<close> and clamps to that ratio.
  For a track of gain 2 dB and peak 1, with clip avoidance on: the predicted peak
  exceeds 1 and the spec's gain is 0 dB, but the guard leaves 1 dB and clears the flag,
  and at 1 dB the predicted peak still exceeds 1. For a track of gain 0.5 dB and peak 1
  the predicted peak exceeds 1 as well, and the guard neither flags nor changes it. The
  help text of \<^verbatim>\<open>-k\<close> (line 319) promises a gain lowered "to avoid clipping".
\<close>

theorem clip_guard_gain_still_clips:
  "clip_guard Fin True (track_of ''a.flac'' AV_CODEC_ID_FLAC (Fin 2) (Fin 1))
     = (track_of ''a.flac'' AV_CODEC_ID_FLAC (Fin 1) (Fin 1), False)
   \<and> 1 < predicted_peak 2 1
   \<and> spec_clamped_gain 1 = 0
   \<and> 1 < predicted_peak 1 1
   \<and> clip_guard Fin True (track_of ''a.flac'' AV_CODEC_ID_FLAC (Fin (1 / 2)) (Fin 1))
     = (track_of ''a.flac'' AV_CODEC_ID_FLAC (Fin (1 / 2)) (Fin 1), False)
   \<and> 1 < predicted_peak (1 / 2) 1"
  by (simp add: clip_guard_def track_of_def track_clips_def album_clips_def dbl_gt_def
      clamp_gains_def FFMIN_def predicted_peak_def spec_clamped_gain_def)

text \<open>
  C2. Clip-guard idempotence: running the detection and the clamp of lines 167 to 181 a
  second time, on the struct the first run left, gives the same gains (the same struct)
  and the same will-clip flag as the first run, whether or not clip avoidance is enabled.
\<close>

theorem clip_guard_idempotent:
  "clip_guard rnd avoid (fst (clip_guard rnd avoid scan)) = clip_guard rnd avoid scan"
  by (simp add: clip_guard_def Let_def track_clips_clamp album_clips_clamp)

text \<open>
  C3, as stated, fails: \<^verbatim>\<open>main\<close> has one will-clip flag for both scopes, set when either
  comparison holds. Two structs with the same track gain 1 dB and track peak 0.25, one
  with album gain 0 and album peak 0, the other with album gain 3 dB and album peak
  0.5: without clip avoidance the first is not flagged and the second is.
\<close>

theorem will_clip_flag_depends_on_album:
  "track_gain (track_of ''c.wav'' (AV_CODEC_ID_OTHER 0) (Fin 1) (Fin (1 / 4)))
     = track_gain ((track_of ''c.wav'' (AV_CODEC_ID_OTHER 0) (Fin 1) (Fin (1 / 4)))
                     \<lparr>album_gain := Fin 3, album_peak := Fin (1 / 2)\<rparr>)
   \<and> track_peak (track_of ''c.wav'' (AV_CODEC_ID_OTHER 0) (Fin 1) (Fin (1 / 4)))
     = track_peak ((track_of ''c.wav'' (AV_CODEC_ID_OTHER 0) (Fin 1) (Fin (1 / 4)))
                     \<lparr>album_gain := Fin 3, album_peak := Fin (1 / 2)\<rparr>)
   \<and> snd (clip_guard Fin False (track_of ''c.wav'' (AV_CODEC_ID_OTHER 0) (Fin 1) (Fin (1 / 4))))
     = False
   \<and> snd (clip_guard Fin False
            ((track_of ''c.wav'' (AV_CODEC_ID_OTHER 0) (Fin 1) (Fin (1 / 4)))
               \<lparr>album_gain := Fin 3, album_peak := Fin (1 / 2)\<rparr>))
     = True"
  by (simp add: clip_guard_def track_of_def track_clips_def album_clips_def dbl_gt_def)

text \<open>
  C3, amended. For two structs that agree on track gain and track peak, whatever their
  album values: the guard leaves the same track gain and the same track peak in both,
  and the track comparison of line 167 has the same outcome for both. The will-clip
  flag is shared by the two scopes: after the guard it is false when clip avoidance is
  on, and otherwise it is set exactly when the track comparison or the album comparison
  holds.
\<close>

theorem track_gain_depends_on_track_only:
  assumes "track_gain s1 = track_gain s2" and "track_peak s1 = track_peak s2"
  shows "track_gain (fst (clip_guard rnd avoid s1)) = track_gain (fst (clip_guard rnd avoid s2))
       \<and> track_peak (fst (clip_guard rnd avoid s1)) = track_peak (fst (clip_guard rnd avoid s2))
       \<and> track_clips rnd s1 = track_clips rnd s2
       \<and> snd (clip_guard rnd avoid s1)
           = (if avoid then False else (track_clips rnd s1 \<or> album_clips rnd s1))
       \<and> snd (clip_guard rnd avoid s2)
           = (if avoid then False else (track_clips rnd s2 \<or> album_clips rnd s2))"
proof -
  have t: "track_clips rnd s1 = track_clips rnd s2"
    using assms by (simp add: track_clips_def)
  have g: "track_gain (fst (clip_guard rnd avoid s1)) = track_gain (fst (clip_guard rnd avoid s2))"
    using assms t by (simp add: guard_track_gain)
  show ?thesis
    using assms t g by (simp add: guard_track_peak guard_flag)
qed

theorem track_gain_depends_on_track_only_witness:
  "track_gain (fst (clip_guard Fin True (track_of ''a.flac'' AV_CODEC_ID_FLAC (Fin 2) (Fin 1))))
     = Fin 1
   \<and> track_gain (fst (clip_guard Fin True
        ((track_of ''a.flac'' AV_CODEC_ID_FLAC (Fin 2) (Fin 1))
           \<lparr>album_gain := Fin 3, album_peak := Fin (1 / 2)\<rparr>)))
     = Fin 1"
proof -
  let ?s1 = "track_of ''a.flac'' AV_CODEC_ID_FLAC (Fin 2) (Fin 1)"
  let ?s2 = "?s1\<lparr>album_gain := Fin 3, album_peak := Fin (1 / 2)\<rparr>"
  have g: "track_gain ?s1 = track_gain ?s2"
    by simp
  have p: "track_peak ?s1 = track_peak ?s2"
    by simp
  have one: "track_gain (fst (clip_guard Fin True ?s1)) = Fin 1"
    by (simp add: clip_guard_def track_of_def track_clips_def album_clips_def dbl_gt_def
        clamp_gains_def FFMIN_def)
  from track_gain_depends_on_track_only [OF g p, of Fin True] one show ?thesis
    by simp
qed

text \<open>
  C10, as stated, fails: a struct whose track peak is 0 is flagged when the album
  comparison holds. A silent track (gain 52 dB, peak 0) in an album of gain 3 dB and
  peak 0.5, without clip avoidance: the flag is set.
\<close>

theorem zero_peak_flagged_by_album:
  "track_peak ((track_of ''a.flac'' AV_CODEC_ID_FLAC (Fin 52) (Fin 0))
                 \<lparr>album_gain := Fin 3, album_peak := Fin (1 / 2)\<rparr>) = Fin 0
   \<and> snd (clip_guard Fin False
            ((track_of ''a.flac'' AV_CODEC_ID_FLAC (Fin 52) (Fin 0))
               \<lparr>album_gain := Fin 3, album_peak := Fin (1 / 2)\<rparr>))
     = True"
  by (simp add: clip_guard_def track_of_def track_clips_def album_clips_def dbl_gt_def)

text \<open>
  C10, amended. For a struct whose track peak is the (positive) zero: \<^verbatim>\<open>1.0 / peak\<close> is
  plus infinity, the track comparison is false for every gain, the minimum of the gain
  and \<^verbatim>\<open>1.0 / peak\<close> is the gain, and the guard leaves the track gain as it is. The
  will-clip flag is then decided by the album comparison alone, and when that comparison
  is false (as it is when the album peak is zero as well) the guard changes nothing and
  the flag is false.
\<close>

theorem zero_peak_track_comparison:
  assumes "track_peak scan = Fin 0"
  shows "one_over rnd (track_peak scan) = PInf
       \<and> track_clips rnd scan = False
       \<and> FFMIN (track_gain scan) (one_over rnd (track_peak scan)) = track_gain scan
       \<and> track_gain (fst (clip_guard rnd avoid scan)) = track_gain scan
       \<and> snd (clip_guard rnd avoid scan) = (if avoid then False else album_clips rnd scan)
       \<and> (album_peak scan = Fin 0 \<longrightarrow> clip_guard rnd avoid scan = (scan, False))
       \<and> (album_clips rnd scan = False \<longrightarrow> clip_guard rnd avoid scan = (scan, False))"
proof -
  have r: "one_over rnd (track_peak scan) = PInf"
    using assms by simp
  have t: "track_clips rnd scan = False"
    by (simp add: track_clips_def r dbl_gt_PInf)
  have a: "album_peak scan = Fin 0 \<Longrightarrow> album_clips rnd scan = False"
    by (simp add: album_clips_def dbl_gt_PInf)
  have g: "track_gain (fst (clip_guard rnd avoid scan)) = track_gain scan"
    by (simp add: guard_track_gain t)
  have f: "snd (clip_guard rnd avoid scan) = (if avoid then False else album_clips rnd scan)"
    by (simp add: guard_flag t)
  have b: "album_peak scan = Fin 0 \<Longrightarrow> clip_guard rnd avoid scan = (scan, False)"
    using a by (simp add: clip_guard_def t)
  have c: "album_clips rnd scan = False \<Longrightarrow> clip_guard rnd avoid scan = (scan, False)"
    by (simp add: clip_guard_def t)
  have m: "FFMIN (track_gain scan) (one_over rnd (track_peak scan)) = track_gain scan"
    by (simp add: r FFMIN_PInf)
  from r t m g f b c show ?thesis
    by blast
qed

theorem zero_peak_track_comparison_witness:
  "one_over Fin (track_peak (track_of ''a.flac'' AV_CODEC_ID_FLAC (Fin 52) (Fin 0))) = PInf
   \<and> clip_guard Fin True (track_of ''a.flac'' AV_CODEC_ID_FLAC (Fin 52) (Fin 0))
       = (track_of ''a.flac'' AV_CODEC_ID_FLAC (Fin 52) (Fin 0), False)"
proof -
  let ?s = "track_of ''a.flac'' AV_CODEC_ID_FLAC (Fin 52) (Fin 0)"
  have tp: "track_peak ?s = Fin 0"
    by (simp add: track_of_def)
  have ap: "album_peak ?s = Fin 0"
    by (simp add: track_of_def)
  from zero_peak_track_comparison [OF tp, of Fin True] ap show ?thesis
    by blast
qed

section \<open>The claims about the options\<close>

text \<open>
  C4, as stated, fails: an option that makes \<^verbatim>\<open>main\<close> print the help (or the version)
  and return 0 may stand before the malformed \<^verbatim>\<open>-d\<close> value, which is then never read.
  For \<^verbatim>\<open>loudgain -h -d abc a.flac\<close>, where \<^verbatim>\<open>strtod\<close> consumes nothing of \<^verbatim>\<open>abc\<close>, the
  run prints the help and returns 0.
\<close>

theorem help_before_bad_db_gain:
  "strtod demo_env ''abc'' = (Fin 0, 0)
   \<and> main demo_env [(CHR ''h'', ''''), (CHR ''d'', ''abc'')] [''a.flac''] = ([Help], Returned 0)"
  by (simp add: main_def handle_opt_def demo_env_def strtod_dec_def is_digit_def digits_val_def)

text \<open>
  C4, amended. When the value of a \<^verbatim>\<open>-d\<close> option is malformed (\<^verbatim>\<open>strtod\<close> consumes
  nothing of it, or the value is not finite), the run ends in the option loop: with the
  failure "Invalid dB gain value", or with the help or the version and status 0 that an
  earlier option asked for; \<^verbatim>\<open>scan_init\<close> and \<^verbatim>\<open>scan_file\<close> are never called. When no
  option before the first occurrence of that \<^verbatim>\<open>-d\<close> option is \<^verbatim>\<open>-h\<close>, \<^verbatim>\<open>-V\<close> or one
  \<^verbatim>\<open>getopt_long\<close> answers with \<^verbatim>\<open>?\<close>, the run ends with the failure.
\<close>

theorem bad_db_gain_never_scans:
  assumes "(CHR ''d'', optarg) \<in> set opts"
      and "snd (strtod env optarg) = 0 \<or> isfinite (fst (strtod env optarg)) = False"
  shows "(main env opts files = ([Fail_printf ''Invalid dB gain value''], Failed)
          \<or> main env opts files = ([Help], Returned 0)
          \<or> main env opts files = ([Version], Returned 0))
       \<and> Scan_init n \<notin> set (fst (main env opts files))
       \<and> Scan_file f k \<notin> set (fst (main env opts files))
       \<and> ((\<forall>opt\<in>set (takeWhile (\<lambda>opt. opt \<noteq> (CHR ''d'', optarg)) opts).
              fst opt \<notin> {CHR ''?'', CHR ''h'', CHR ''V''})
            \<longrightarrow> main env opts files = ([Fail_printf ''Invalid dB gain value''], Failed))"
proof -
  obtain stop where s: "getopt_loop env init_config opts = Inl stop"
    using getopt_loop_bad_gain_stops [OF assms(2) assms(1)] by blast
  then have m: "main env opts files = stop"
    by (simp add: main_def)
  have three: "stop = ([Fail_printf ''Invalid dB gain value''], Failed)
       \<or> stop = ([Help], Returned 0) \<or> stop = ([Version], Returned 0)"
    using s by (rule getopt_loop_stop)
  have no_init: "Scan_init n \<notin> set (fst stop)"
    using three by auto
  have no_file: "Scan_file f k \<notin> set (fst stop)"
    using three by auto
  have reach: "main env opts files = ([Fail_printf ''Invalid dB gain value''], Failed)"
    if clean: "\<forall>opt\<in>set (takeWhile (\<lambda>opt. opt \<noteq> (CHR ''d'', optarg)) opts).
              fst opt \<notin> {CHR ''?'', CHR ''h'', CHR ''V''}"
  proof -
    let ?P = "\<lambda>opt. opt \<noteq> (CHR ''d'', optarg)"
    from assms(1) have "dropWhile ?P opts \<noteq> []" by simp
    then obtain post where d: "dropWhile ?P opts = (CHR ''d'', optarg) # post"
      using hd_dropWhile [of ?P opts] by (cases "dropWhile ?P opts") auto
    have "opts = takeWhile ?P opts @ (CHR ''d'', optarg) # post"
      using takeWhile_dropWhile_id [of ?P opts] d by simp
    then have "getopt_loop env init_config opts
          = getopt_loop env init_config (takeWhile ?P opts @ (CHR ''d'', optarg) # post)"
      by simp
    also have "\<dots> = Inl ([Fail_printf ''Invalid dB gain value''], Failed)"
      using assms(2) clean by (rule getopt_loop_bad_gain_fails)
    finally show ?thesis by (simp add: main_def)
  qed
  from m three no_init no_file reach show ?thesis by simp
qed

theorem bad_db_gain_never_scans_witness:
  "main demo_env [(CHR ''k'', ''''), (CHR ''d'', ''abc'')] [''a.flac'']
     = ([Fail_printf ''Invalid dB gain value''], Failed)"
proof -
  have bad: "snd (strtod demo_env ''abc'') = 0 \<or> isfinite (fst (strtod demo_env ''abc'')) = False"
    by (simp add: demo_env_def strtod_dec_def is_digit_def digits_val_def)
  have mem: "(CHR ''d'', ''abc'') \<in> set [(CHR ''k'', ''''), (CHR ''d'', ''abc'')]"
    by simp
  have clean: "\<forall>opt\<in>set (takeWhile (\<lambda>opt. opt \<noteq> (CHR ''d'', ''abc''))
                              [(CHR ''k'', ''''), (CHR ''d'', ''abc'')]).
              fst opt \<notin> {CHR ''?'', CHR ''h'', CHR ''V''}"
    by simp
  from bad_db_gain_never_scans [OF mem bad, of "[''a.flac'']"] clean show ?thesis
    by blast
qed

text \<open>
  C9. Lenient pre-gain parsing: the \<^verbatim>\<open>-d\<close> case looks at what \<^verbatim>\<open>strtod\<close> returned and at
  how much it consumed, never at what follows the consumed prefix. When \<^verbatim>\<open>strtod\<close>
  returns \<open>v\<close> after \<open>n\<close> characters, the value is accepted as the pre-gain if \<open>n\<close> is
  positive and \<open>v\<close> is finite, and the run fails with "Invalid dB gain value" otherwise:
  only when nothing was consumed or the value is not finite.
\<close>

theorem db_gain_prefix_accepted:
  assumes "strtod env optarg = (v, n)"
  shows "handle_opt env cfg (CHR ''d'', optarg) =
           (if 0 < n \<and> isfinite v then Inr (cfg\<lparr>pre_gain := v\<rparr>)
            else Inl ([Fail_printf ''Invalid dB gain value''], Failed))
       \<and> getopt_loop env cfg ((CHR ''d'', optarg) # opts) =
           (if 0 < n \<and> isfinite v then getopt_loop env (cfg\<lparr>pre_gain := v\<rparr>) opts
            else Inl ([Fail_printf ''Invalid dB gain value''], Failed))"
  using assms by (simp add: handle_opt_d)

theorem db_gain_prefix_accepted_witness:
  "strtod demo_env ''1.5abc'' = (Fin (3 / 2), 3)
   \<and> drop 3 ''1.5abc'' = ''abc''
   \<and> handle_opt demo_env init_config (CHR ''d'', ''1.5abc'')
       = Inr (init_config\<lparr>pre_gain := Fin (3 / 2)\<rparr>)
   \<and> getopt_loop demo_env init_config [(CHR ''d'', ''1.5abc'')]
       = Inr (init_config\<lparr>pre_gain := Fin (3 / 2)\<rparr>)"
proof -
  have p: "strtod demo_env ''1.5abc'' = (Fin (3 / 2), 3)"
    by (simp add: demo_env_def strtod_dec_def is_digit_def digits_val_def)
  from db_gain_prefix_accepted [OF p, of init_config "[]"] p show ?thesis
    by simp
qed

section \<open>The claims about the report loop\<close>

text \<open>
  What \<^verbatim>\<open>continue\<close> at line 162 does: when \<^verbatim>\<open>scan_get_track_result\<close> returns no struct
  for file \<open>i\<close>, the trace of the run is that of the iterations before \<open>i\<close>
  followed by that of the iterations after \<open>i\<close>, each with its own index and the full
  number of files, and \<^verbatim>\<open>main\<close> returns 0 once the options are read; the only other
  status is the failure of the option loop on a malformed \<^verbatim>\<open>-d\<close> value. The iteration
  of the last index carries the album report as well.
\<close>

lemma failed_scan_drops_its_iteration:
  assumes "i < length files"
      and "scan_get_track_result env i (pre_gain cfg) = None"
  shows "fst (scan_and_report env cfg files) =
           Scan_init (length files) # scan_files files 0
           @ (if tab_output cfg then [Tab_header] else [])
           @ report_loop env cfg (length files) [0..<i]
           @ report_loop env cfg (length files) [Suc i..<length files]
           @ [Scan_deinit]
       \<and> snd (scan_and_report env cfg files) = Returned 0
       \<and> (snd (main env opts files) = Returned 0
          \<or> getopt_loop env init_config opts = Inl ([Fail_printf ''Invalid dB gain value''], Failed))"
proof -
  have "[0..<length files] = [0..<i] @ [i..<length files]"
    using assms(1) upt_add_eq_append [of 0 i "length files - i"] by simp
  then have "[0..<length files] = [0..<i] @ i # [Suc i..<length files]"
    using assms(1) by (simp add: upt_conv_Cons)
  then have "report_loop env cfg (length files) [0..<length files]
      = report_loop env cfg (length files) [0..<i]
        @ report_loop env cfg (length files) (i # [Suc i..<length files])"
    by (simp add: report_loop_append)
  also have "report_loop env cfg (length files) (i # [Suc i..<length files])
      = report_loop env cfg (length files) [Suc i..<length files]"
    using assms(2) by simp
  finally have "fst (scan_and_report env cfg files) =
           Scan_init (length files) # scan_files files 0
           @ (if tab_output cfg then [Tab_header] else [])
           @ report_loop env cfg (length files) [0..<i]
           @ report_loop env cfg (length files) [Suc i..<length files]
           @ [Scan_deinit]"
    by (simp add: scan_and_report_def Let_def)
  then show ?thesis
    using scan_and_report_exit main_exit by blast
qed

text \<open>
  C5. A failed scan is to cost the report and the tags of that file only. The album
  report is printed inside the iteration of the last index (lines 257 and 273), so a
  failed scan of the last file costs the album report too: \<^verbatim>\<open>loudgain -a a.flac\<close> prints
  the block of \<^verbatim>\<open>a.flac\<close> and the album block, and \<^verbatim>\<open>loudgain -a a.flac b.flac\<close>, where
  the scan of \<^verbatim>\<open>b.flac\<close> gives no struct, prints the block of \<^verbatim>\<open>a.flac\<close> and no album
  block. Both runs return 0.
\<close>

theorem album_block_missing_after_failed_last_scan:
  "main demo_env [(CHR ''a'', '''')] [''a.flac'', ''b.flac''] =
     ([Scan_init 2,
       Ok_printf_scanning ''a.flac'', Scan_file ''a.flac'' 0,
       Ok_printf_scanning ''b.flac'', Scan_file ''b.flac'' 1,
       Track_block ''a.flac'' (Fin (- 20)) (Fin 5) (Fin 2) (Fin 1),
       Err_printf ''The track will clip'',
       Scan_deinit],
      Returned 0)
   \<and> main demo_env [(CHR ''a'', '''')] [''a.flac''] =
     ([Scan_init 1,
       Ok_printf_scanning ''a.flac'', Scan_file ''a.flac'' 0,
       Track_block ''a.flac'' (Fin (- 20)) (Fin 5) (Fin 2) (Fin 1),
       Album_block (Fin (- 21)) (Fin 6) (Fin 3) (Fin (1 / 2)),
       Err_printf ''The track will clip'',
       Scan_deinit],
      Returned 0)"
  by (simp add: main_def handle_opt_def init_config_def scan_and_report_def upt_conv_Cons
      demo_env_def iteration_def step_album_def step_guard_def step_tags_def step_report_def
      step_warn_def album_step_def clip_guard_def
      track_clips_def album_clips_def dbl_gt_def track_of_def tag_switch_def report_def is_last_def)



text \<open>
  C7, as stated, fails: the clamp does not work on a copy. Lines 174 to 178 assign to
  the gains of the struct \<^verbatim>\<open>scan\<close> points to, the one \<^verbatim>\<open>scan_get_track_result\<close> returned.
  For a struct returned with track gain 2 dB and peak 1, with clip avoidance on, that
  same memory holds the gain 1 dB after the guard and when it is freed.
\<close>

theorem clamp_overwrites_result_struct:
  "track_gain (track_of ''a.flac'' AV_CODEC_ID_FLAC (Fin 2) (Fin 1)) = Fin 2
   \<and> scan_mem (step_guard demo_env (init_config\<lparr>no_clip := True\<rparr>)
        \<lparr>scan_mem = track_of ''a.flac'' AV_CODEC_ID_FLAC (Fin 2) (Fin 1),
         will_clip = False, out = []\<rparr>)
     = track_of ''a.flac'' AV_CODEC_ID_FLAC (Fin 1) (Fin 1)
   \<and> fst (iteration demo_env (init_config\<lparr>no_clip := True\<rparr>) 1 0
          (track_of ''a.flac'' AV_CODEC_ID_FLAC (Fin 2) (Fin 1)))
     = track_of ''a.flac'' AV_CODEC_ID_FLAC (Fin 1) (Fin 1)"
  by (simp add: init_config_def demo_env_def iteration_def step_album_def step_guard_def
      step_tags_def step_report_def step_warn_def album_step_def clip_guard_def clamp_gains_def
      FFMIN_def track_clips_def album_clips_def dbl_gt_def track_of_def tag_switch_def)

text \<open>
  C7, amended. The clamp overwrites the gains of the result struct in place, before the
  tag \<^verbatim>\<open>switch\<close> and before the report. The report and the clip warning do not write to
  the struct, so no value is changed after it was printed, and the struct freed is the
  struct printed. What an iteration prints is, after the events of the tag \<^verbatim>\<open>switch\<close>,
  the row (or block) of the file with the name, gain and peak of that struct, then the
  album row (or block) with its album gain and peak when the index is the last and
  album mode is on, then the clip warning when due. When the tag functions leave the
  struct as it is, the struct printed is the one the guard left: a gain is
  \<^verbatim>\<open>1.0 / peak\<close> where clip avoidance is on and its comparison held, and the gain of
  line 165 otherwise; the peaks are those of line 165.
\<close>

theorem printed_values_are_final:
  "scan_mem (step_report env cfg n i st) = scan_mem st
   \<and> scan_mem (step_warn cfg st) = scan_mem st
   \<and> snd (iteration env cfg n i scan0) =
       fst (tag_switch env (mode cfg)
              (fst (clip_guard (round_dbl env) (no_clip cfg) (album_step env cfg scan0))))
       @ (if tab_output cfg then
            Tab_row [CStr (file_name (fst (iteration env cfg n i scan0))), CInt 0,
                     CFix2 (track_gain (fst (iteration env cfg n i scan0))),
                     CFix6 (times_32768 (round_dbl env) (track_peak (fst (iteration env cfg n i scan0)))),
                     CInt 0, CInt 0]
            # (if is_last i n \<and> do_album cfg then
                 [Tab_row [CStr ''Album'', CInt 0,
                           CFix2 (album_gain (fst (iteration env cfg n i scan0))),
                           CFix6 (times_32768 (round_dbl env) (album_peak (fst (iteration env cfg n i scan0)))),
                           CInt 0, CInt 0]]
               else [])
          else
            Track_block (file_name (fst (iteration env cfg n i scan0)))
              (track_loudness (fst (iteration env cfg n i scan0)))
              (track_loudness_range (fst (iteration env cfg n i scan0)))
              (track_gain (fst (iteration env cfg n i scan0)))
              (track_peak (fst (iteration env cfg n i scan0)))
            # (if is_last i n \<and> do_album cfg then
                 [Album_block (album_loudness (fst (iteration env cfg n i scan0)))
                    (album_loudness_range (fst (iteration env cfg n i scan0)))
                    (album_gain (fst (iteration env cfg n i scan0)))
                    (album_peak (fst (iteration env cfg n i scan0)))]
               else []))
       @ (if warn_clip cfg \<and> snd (clip_guard (round_dbl env) (no_clip cfg) (album_step env cfg scan0))
          then [Err_printf ''The track will clip''] else [])
   \<and> ((\<forall>fn s. tag_call env fn s = s) \<longrightarrow>
        fst (iteration env cfg n i scan0)
          = fst (clip_guard (round_dbl env) (no_clip cfg) (album_step env cfg scan0))
        \<and> track_gain (fst (iteration env cfg n i scan0))
          = (if no_clip cfg \<and> track_clips (round_dbl env) (album_step env cfg scan0)
             then one_over (round_dbl env) (track_peak (album_step env cfg scan0))
             else track_gain (album_step env cfg scan0))
        \<and> album_gain (fst (iteration env cfg n i scan0))
          = (if no_clip cfg \<and> album_clips (round_dbl env) (album_step env cfg scan0)
             then one_over (round_dbl env) (album_peak (album_step env cfg scan0))
             else album_gain (album_step env cfg scan0))
        \<and> track_peak (fst (iteration env cfg n i scan0)) = track_peak (album_step env cfg scan0)
        \<and> album_peak (fst (iteration env cfg n i scan0)) = album_peak (album_step env cfg scan0))"
proof -
  have events: "snd (iteration env cfg n i scan0) =
       fst (tag_switch env (mode cfg)
              (fst (clip_guard (round_dbl env) (no_clip cfg) (album_step env cfg scan0))))
       @ report (round_dbl env) cfg n i (fst (iteration env cfg n i scan0))
       @ (if warn_clip cfg \<and> snd (clip_guard (round_dbl env) (no_clip cfg) (album_step env cfg scan0))
          then [Err_printf ''The track will clip''] else [])"
    by (rule iteration_events)
  have quiet: "fst (iteration env cfg n i scan0)
          = fst (clip_guard (round_dbl env) (no_clip cfg) (album_step env cfg scan0))"
    if "\<forall>fn s. tag_call env fn s = s"
    unfolding iteration_struct using that by (rule tag_switch_quiet)
  show ?thesis
  proof (intro conjI impI)
    show "scan_mem (step_report env cfg n i st) = scan_mem st"
      by (simp add: step_report_def)
    show "scan_mem (step_warn cfg st) = scan_mem st"
      by (simp add: step_warn_def)
    show "snd (iteration env cfg n i scan0) =
       fst (tag_switch env (mode cfg)
              (fst (clip_guard (round_dbl env) (no_clip cfg) (album_step env cfg scan0))))
       @ (if tab_output cfg then
            Tab_row [CStr (file_name (fst (iteration env cfg n i scan0))), CInt 0,
                     CFix2 (track_gain (fst (iteration env cfg n i scan0))),
                     CFix6 (times_32768 (round_dbl env) (track_peak (fst (iteration env cfg n i scan0)))),
                     CInt 0, CInt 0]
            # (if is_last i n \<and> do_album cfg then
                 [Tab_row [CStr ''Album'', CInt 0,
                           CFix2 (album_gain (fst (iteration env cfg n i scan0))),
                           CFix6 (times_32768 (round_dbl env) (album_peak (fst (iteration env cfg n i scan0)))),
                           CInt 0, CInt 0]]
               else [])
          else
            Track_block (file_name (fst (iteration env cfg n i scan0)))
              (track_loudness (fst (iteration env cfg n i scan0)))
              (track_loudness_range (fst (iteration env cfg n i scan0)))
              (track_gain (fst (iteration env cfg n i scan0)))
              (track_peak (fst (iteration env cfg n i scan0)))
            # (if is_last i n \<and> do_album cfg then
                 [Album_block (album_loudness (fst (iteration env cfg n i scan0)))
                    (album_loudness_range (fst (iteration env cfg n i scan0)))
                    (album_gain (fst (iteration env cfg n i scan0)))
                    (album_peak (fst (iteration env cfg n i scan0)))]
               else []))
       @ (if warn_clip cfg \<and> snd (clip_guard (round_dbl env) (no_clip cfg) (album_step env cfg scan0))
          then [Err_printf ''The track will clip''] else [])"
      using events by (simp add: report_def)
  next
    assume q: "\<forall>fn s. tag_call env fn s = s"
    show "fst (iteration env cfg n i scan0)
          = fst (clip_guard (round_dbl env) (no_clip cfg) (album_step env cfg scan0))"
      using q by (rule quiet)
    show "track_gain (fst (iteration env cfg n i scan0))
          = (if no_clip cfg \<and> track_clips (round_dbl env) (album_step env cfg scan0)
             then one_over (round_dbl env) (track_peak (album_step env cfg scan0))
             else track_gain (album_step env cfg scan0))"
      unfolding quiet [OF q] by (rule guard_track_gain)
    show "album_gain (fst (iteration env cfg n i scan0))
          = (if no_clip cfg \<and> album_clips (round_dbl env) (album_step env cfg scan0)
             then one_over (round_dbl env) (album_peak (album_step env cfg scan0))
             else album_gain (album_step env cfg scan0))"
      unfolding quiet [OF q] by (rule guard_album_gain)
    show "track_peak (fst (iteration env cfg n i scan0)) = track_peak (album_step env cfg scan0)"
      unfolding quiet [OF q] by (rule guard_track_peak)
    show "album_peak (fst (iteration env cfg n i scan0)) = album_peak (album_step env cfg scan0)"
      unfolding quiet [OF q] by (rule guard_album_peak)
  qed
qed

theorem printed_values_are_final_witness:
  "fst (iteration demo_env (init_config\<lparr>mode := CHR ''i'', no_clip := True\<rparr>) 1 0
          (track_of ''a.flac'' AV_CODEC_ID_FLAC (Fin 2) (Fin 1)))
     = track_of ''a.flac'' AV_CODEC_ID_FLAC (Fin 1) (Fin 1)
   \<and> snd (iteration demo_env (init_config\<lparr>mode := CHR ''i'', no_clip := True\<rparr>) 1 0
          (track_of ''a.flac'' AV_CODEC_ID_FLAC (Fin 2) (Fin 1)))
     = [Tag tag_clear_flac (track_of ''a.flac'' AV_CODEC_ID_FLAC (Fin 1) (Fin 1)),
        Tag tag_write_flac (track_of ''a.flac'' AV_CODEC_ID_FLAC (Fin 1) (Fin 1)),
        Track_block ''a.flac'' (Fin (- 20)) (Fin 5) (Fin 1) (Fin 1)]"
proof -
  let ?cfg = "init_config\<lparr>mode := CHR ''i'', no_clip := True\<rparr>"
  let ?s = "track_of ''a.flac'' AV_CODEC_ID_FLAC (Fin 2) (Fin 1)"
  let ?g = "track_of ''a.flac'' AV_CODEC_ID_FLAC (Fin 1) (Fin 1)"
  have q: "\<forall>fn s. tag_call demo_env fn s = s"
    by (simp add: demo_env_def)
  have guard: "clip_guard (round_dbl demo_env) (no_clip ?cfg) (album_step demo_env ?cfg ?s) = (?g, False)"
    by (simp add: album_step_def init_config_def demo_env_def clip_guard_def clamp_gains_def
        FFMIN_def track_of_def track_clips_def album_clips_def dbl_gt_def)
  note th = printed_values_are_final
    [of demo_env ?cfg 1 0 "\<lparr>scan_mem = ?s, will_clip = False, out = []\<rparr>" ?s]
  note events = th [THEN conjunct2, THEN conjunct2, THEN conjunct1]
  note quiet = th [THEN conjunct2, THEN conjunct2, THEN conjunct2, THEN mp, OF q, THEN conjunct1]
  have struct: "fst (iteration demo_env ?cfg 1 0 ?s) = ?g"
    unfolding quiet guard by simp
  show ?thesis
  proof
    show "fst (iteration demo_env ?cfg 1 0 ?s) = ?g"
      by (rule struct)
    show "snd (iteration demo_env ?cfg 1 0 ?s) =
      [Tag tag_clear_flac ?g, Tag tag_write_flac ?g,
       Track_block ''a.flac'' (Fin (- 20)) (Fin 5) (Fin 1) (Fin 1)]"
      unfolding events struct guard
      by (simp add: init_config_def tag_switch_def track_of_def demo_env_def)
  qed
qed

text \<open>
  C8. The tab-delimited list has one row per scanned file (name, 0, track gain, track
  peak times 32768, 0, 0). The album row is printed inside the iteration of the last
  index, so it is lost when the scan of the last file fails: for \<^verbatim>\<open>loudgain -a -o
  a.flac b.flac\<close>, where the scan of \<^verbatim>\<open>b.flac\<close> gives no struct, the list has the header
  and the row of \<^verbatim>\<open>a.flac\<close> and no album row.
\<close>

theorem album_row_missing_after_failed_last_scan:
  "main demo_env [(CHR ''a'', ''''), (CHR ''o'', '''')] [''a.flac'', ''b.flac''] =
     ([Scan_init 2,
       Ok_printf_scanning ''a.flac'', Scan_file ''a.flac'' 0,
       Ok_printf_scanning ''b.flac'', Scan_file ''b.flac'' 1,
       Tab_header,
       Tab_row [CStr ''a.flac'', CInt 0, CFix2 (Fin 2), CFix6 (Fin 32768), CInt 0, CInt 0],
       Err_printf ''The track will clip'',
       Scan_deinit],
      Returned 0)"
  by (simp add: main_def handle_opt_def init_config_def scan_and_report_def upt_conv_Cons
      demo_env_def iteration_def step_album_def step_guard_def step_tags_def step_report_def
      step_warn_def album_step_def clip_guard_def
      track_clips_def album_clips_def dbl_gt_def track_of_def tag_switch_def report_def is_last_def)

end
